theory Spec2Isabelle
  imports Complex_Main
begin

section \<open>Denomination registry and coin conversion (types/denom.go)\<close>

text \<open>
  A shallow embedding of \<^verbatim>\<open>src/types/denom.go\<close>. The two package-level maps
  \<^verbatim>\<open>denomUnits\<close> and \<^verbatim>\<open>baseDenom\<close> are the only mutable state; they become a
  record that every function takes, and that \<^verbatim>\<open>RegisterDenom\<close> returns updated.

  A Go call ends in one of three ways: it returns its value, it returns a non-nil
  \<^verbatim>\<open>error\<close>, or it aborts with a panic. All three are constructors of the result
  type, so that "this call never aborts" is a statement about the model.
\<close>

subsection \<open>Results: values, errors, panics\<close>

datatype error =
    InvalidDenom string
  | AlreadyRegistered string
  | SourceNotRegistered string
  | DestNotRegistered string
  | NotRegistered
  | ParseError string
  | PrecisionOverflow

datatype panic = Abort

datatype 'a outcome = Return 'a | Error error | Panic panic

fun andThen :: "'a outcome \<Rightarrow> ('a \<Rightarrow> 'b outcome) \<Rightarrow> 'b outcome" where
  "andThen (Return x) f = f x"
| "andThen (Error e) f = Error e"
| "andThen (Panic p) f = Panic p"

subsection \<open>The denomination grammar\<close>

text \<open>
  Modelled from the spec: \<^verbatim>\<open>types.ValidateDenom\<close>, a function of the imported package
  \<^verbatim>\<open>github.com/cosmos/cosmos-sdk/types\<close> that is not among the source files. The spec
  (sections 3 and 6) gives the grammar: the first character is a letter; every later
  character is a letter, a digit or one of \<^verbatim>\<open>/ : . _ -\<close>; the total length is at least 3
  and at most 128. (This is the library's pattern \<^verbatim>\<open>[a-zA-Z][a-zA-Z0-9/:._-]{2,127}\<close>.)
  The function returns \<^verbatim>\<open>nil\<close> on a match and an error otherwise.
\<close>

definition isLetter :: "char \<Rightarrow> bool" where
  "isLetter c = (c \<in> set ''abcdefghijklmnopqrstuvwxyzABCDEFGHIJKLMNOPQRSTUVWXYZ'')"

definition isDigit :: "char \<Rightarrow> bool" where
  "isDigit c = (c \<in> set ''0123456789'')"

definition isDenomChar :: "char \<Rightarrow> bool" where
  "isDenomChar c = (isLetter c \<or> isDigit c \<or> c \<in> set ''/:._-'')"

fun matchDenom :: "string \<Rightarrow> bool" where
  "matchDenom [] = False"
| "matchDenom (c # cs) =
     (isLetter c \<and> list_all isDenomChar cs \<and> 2 \<le> length cs \<and> length cs \<le> 127)"

definition ValidateDenom :: "string \<Rightarrow> error option" where
  "ValidateDenom denom = (if matchDenom denom then None else Some (InvalidDenom denom))"

subsection \<open>The decimal engine\<close>

text \<open>
  Modelled from the spec: \<^verbatim>\<open>types.Dec\<close> and \<^verbatim>\<open>types.Int\<close> with their operations, the
  "Decimal Engine" of the spec, which belong to the imported package and are not among
  the source files. The definitions follow the spec's words:

  \<^item> "arbitrary-precision signed decimal arithmetic with a bounded operand size,
    exposing add/multiply/divide/compare/truncate-toward-zero" (section 2): a decimal is
    its exact value, a rational number; an integer amount is an \<^typ>\<open>int\<close>;
  \<^item> "a decimal representation whose operand magnitude is bounded (a fixed maximum
    significant-bit budget, e.g. 315 bits ...)" (section 4.2): a value is within the
    budget when its magnitude is below \<open>2^315\<close>, the constant \<^verbatim>\<open>maxDecBitLen\<close> of
    denom.go, line 8;
  \<^item> "division that would exceed this budget is a fatal precision-overflow condition
    and must be rejected rather than silently truncated mid-computation" (section 4.2),
    and "\<^verbatim>\<open>PrecisionOverflow\<close> (decimal operand exceeds the fixed bit-budget). All errors
    are returned as values, never as uncatchable aborts" (section 7): a product or a
    quotient beyond the budget is the error value \<open>PrecisionOverflow\<close>, and the exact
    product or quotient otherwise;
  \<^item> "truncates the result toward zero to an integer" (section 4.2): the integer is
    the floor of a non-negative value and the ceiling of a negative one.

  The spec does not say what the division by a zero multiplier gives. A zero divisor has
  no quotient of any magnitude; the model rejects it with the same error value.
\<close>

datatype Dec = Dec (num: rat)

definition maxDecBitLen :: nat where
  "maxDecBitLen = 315"

definition withinBudget :: "rat \<Rightarrow> bool" where
  "withinBudget x \<longleftrightarrow> \<bar>x\<bar> < 2 ^ maxDecBitLen"

definition truncateTowardZero :: "rat \<Rightarrow> int" where
  "truncateTowardZero x = (if 0 \<le> x then \<lfloor>x\<rfloor> else \<lceil>x\<rceil>)"

definition ZeroDec :: Dec where
  "ZeroDec = Dec 0"

definition Equal :: "Dec \<Rightarrow> Dec \<Rightarrow> bool" where
  "Equal d d2 = (num d = num d2)"

definition NewDecFromInt :: "int \<Rightarrow> Dec" where
  "NewDecFromInt i = Dec (of_int i)"

definition Mul :: "Dec \<Rightarrow> Dec \<Rightarrow> Dec outcome" where
  "Mul d d2 =
     (let product = num d * num d2 in
      if withinBudget product then Return (Dec product) else Error PrecisionOverflow)"

definition Quo :: "Dec \<Rightarrow> Dec \<Rightarrow> Dec outcome" where
  "Quo d d2 =
     (if num d2 = 0 then Error PrecisionOverflow
      else
        let quotient = num d / num d2 in
        if withinBudget quotient then Return (Dec quotient) else Error PrecisionOverflow)"

definition TruncateInt :: "Dec \<Rightarrow> int outcome" where
  "TruncateInt d = Return (truncateTowardZero (num d))"

subsection \<open>Coins\<close>

text \<open>
  \<^verbatim>\<open>types.Coin\<close> and \<^verbatim>\<open>types.DecCoin\<close> are structs with the fields \<^verbatim>\<open>Denom\<close> and
  \<^verbatim>\<open>Amount\<close>; the fields of the decimal coin are named \<open>DecDenom\<close> and \<open>DecAmount\<close>
  here, since two records cannot share field names.
\<close>

record Coin =
  Denom :: string
  Amount :: int


text \<open>
  Modelled from the spec: the constructors \<^verbatim>\<open>types.NewCoin\<close> and
  \<^verbatim>\<open>types.NewDecCoinFromDec\<close> and the method \<^verbatim>\<open>DecCoin.TruncateDecimal\<close> of the imported
  package, not among the source files. In the spec a coin is the pair of a denomination
  name and an amount (section 3), and a decimal coin becomes an integer coin when the
  engine "truncates the decimal amount toward zero" (section 4.3).
  \<^verbatim>\<open>TruncateDecimal\<close> returns the truncated coin and the change; the callers in denom.go
  keep the first component only.
\<close>

definition NewCoin :: "string \<Rightarrow> int \<Rightarrow> Coin outcome" where
  "NewCoin denom amount = Return \<lparr>Denom = denom, Amount = amount\<rparr>"



subsection \<open>The registry\<close>

text \<open>
  \<^verbatim>\<open>var denomUnits = map[string]types.Dec{}\<close> and \<^verbatim>\<open>var baseDenom = map[string]string{}\<close>
  (denom.go, lines 12 and 15).
\<close>

record registry =
  denomUnits :: "string \<rightharpoonup> Dec"
  baseDenom :: "string \<rightharpoonup> string"

definition emptyRegistry :: registry where
  "emptyRegistry = \<lparr>denomUnits = Map.empty, baseDenom = Map.empty\<rparr>"

text \<open>Indexing a Go map of strings: the empty string when the key is absent.\<close>

definition index :: "(string \<rightharpoonup> string) \<Rightarrow> string \<Rightarrow> string" where
  "index m k = (case m k of None \<Rightarrow> [] | Some v \<Rightarrow> v)"

text \<open>
  \<^verbatim>\<open>RegisterDenom\<close> (lines 19 to 33) returns its error (\<open>None\<close> is \<^verbatim>\<open>nil\<close>) and the
  registry it leaves behind. The four assignments are applied in the source's order.
\<close>

definition RegisterDenom ::
  "registry \<Rightarrow> string \<Rightarrow> Dec \<Rightarrow> string \<Rightarrow> Dec \<Rightarrow> error option \<times> registry" where
  "RegisterDenom reg denom unit bDenom bUnit =
     (case ValidateDenom denom of
        Some err \<Rightarrow> (Some err, reg)
      | None \<Rightarrow>
          if denomUnits reg denom \<noteq> None then (Some (AlreadyRegistered denom), reg)
          else
            (None,
             \<lparr>denomUnits = ((denomUnits reg)(denom \<mapsto> unit))(bDenom \<mapsto> bUnit),
              baseDenom = ((baseDenom reg)(denom \<mapsto> bDenom))(bDenom \<mapsto> bDenom)\<rparr>))"

text \<open>\<^verbatim>\<open>GetDenomUnit\<close> (lines 37 to 48).\<close>

definition GetDenomUnit :: "registry \<Rightarrow> string \<Rightarrow> Dec \<times> bool" where
  "GetDenomUnit reg denom =
     (case ValidateDenom denom of
        Some err \<Rightarrow> (ZeroDec, False)
      | None \<Rightarrow>
          (case denomUnits reg denom of
             None \<Rightarrow> (ZeroDec, False)
           | Some unit \<Rightarrow> (unit, True)))"

text \<open>\<^verbatim>\<open>GetBaseDenom\<close> (lines 51 to 56).\<close>

definition GetBaseDenom :: "registry \<Rightarrow> string \<Rightarrow> string outcome" where
  "GetBaseDenom reg denom =
     (if index (baseDenom reg) denom = [] then Error NotRegistered
      else Return (index (baseDenom reg) denom))"

subsection \<open>Conversion\<close>

text \<open>\<^verbatim>\<open>ConvertCoin\<close> (lines 61 to 81).\<close>

definition ConvertCoin :: "registry \<Rightarrow> Coin \<Rightarrow> string \<Rightarrow> Coin outcome" where
  "ConvertCoin reg coin denom =
     (case ValidateDenom denom of
        Some err \<Rightarrow> Error err
      | None \<Rightarrow>
          (case GetDenomUnit reg (Denom coin) of
             (srcUnit, ok) \<Rightarrow>
               if \<not> ok then Error (SourceNotRegistered (Denom coin))
               else
                 (case GetDenomUnit reg denom of
                    (dstUnit, ok) \<Rightarrow>
                      if \<not> ok then Error (DestNotRegistered denom)
                      else if Equal srcUnit dstUnit then NewCoin denom (Amount coin)
                      else
                        andThen (Mul (NewDecFromInt (Amount coin)) srcUnit) (\<lambda>m.
                        andThen (Quo m dstUnit) (\<lambda>q.
                        andThen (TruncateInt q) (\<lambda>i.
                        NewCoin denom i))))))"


subsection \<open>Normalisation\<close>






subsection \<open>Parsing\<close>















subsection \<open>Sequences of registrations\<close>

text \<open>
  The registry after a list of \<^verbatim>\<open>RegisterDenom\<close> calls, given by their arguments; a
  call that returns an error leaves the registry as it was and the next call runs.
\<close>

fun registerAll :: "registry \<Rightarrow> (string \<times> Dec \<times> string \<times> Dec) list \<Rightarrow> registry" where
  "registerAll reg [] = reg"
| "registerAll reg ((denom, unit, bDenom, bUnit) # calls) =
     registerAll (snd (RegisterDenom reg denom unit bDenom bUnit)) calls"

subsection \<open>The invariant of the base links, and the registry of the spec's examples\<close>

text \<open>
  Every name with a base link has a multiplier, and every base is its own base.
\<close>

definition linksClosed :: "registry \<Rightarrow> bool" where
  "linksClosed reg \<longleftrightarrow>
     dom (baseDenom reg) \<subseteq> dom (denomUnits reg) \<and>
     (\<forall>d b. baseDenom reg d = Some b \<longrightarrow> baseDenom reg b = Some b)"

text \<open>
  A registry in which one atom is \<open>10^6\<close> uatom, with the multipliers \<open>10^18\<close> and
  \<open>10^12\<close>.
\<close>

definition atomRegistry :: registry where
  "atomRegistry =
     snd (RegisterDenom emptyRegistry ''atom'' (Dec (10 ^ 18)) ''uatom'' (Dec (10 ^ 12)))"


definition tripleRegistry :: registry where
  "tripleRegistry =
     snd (RegisterDenom emptyRegistry ''triple'' (Dec 3) ''single'' (Dec 1))"

section \<open>Properties\<close>

subsection \<open>Names used in the examples\<close>

lemma ValidateDenom_atom: "ValidateDenom ''atom'' = None"
  by (simp add: ValidateDenom_def isLetter_def isDenomChar_def isDigit_def)

lemma ValidateDenom_uatom: "ValidateDenom ''uatom'' = None"
  by (simp add: ValidateDenom_def isLetter_def isDenomChar_def isDigit_def)

lemma ValidateDenom_matom: "ValidateDenom ''matom'' = None"
  by (simp add: ValidateDenom_def isLetter_def isDenomChar_def isDigit_def)

lemma ValidateDenom_u: "ValidateDenom ''u'' = Some (InvalidDenom ''u'')"
  by (simp add: ValidateDenom_def)

lemma ValidateDenom_empty: "ValidateDenom [] = Some (InvalidDenom [])"
  by (simp add: ValidateDenom_def)

lemma atomRegistry_eq:
  "atomRegistry = \<lparr>denomUnits = [''atom'' \<mapsto> Dec (10 ^ 18), ''uatom'' \<mapsto> Dec (10 ^ 12)],
                   baseDenom = [''atom'' \<mapsto> ''uatom'', ''uatom'' \<mapsto> ''uatom'']\<rparr>"
  by (simp add: atomRegistry_def RegisterDenom_def ValidateDenom_atom emptyRegistry_def)

subsection \<open>What one registration does\<close>

lemma RegisterDenom_fresh:
  "ValidateDenom denom = None \<Longrightarrow> denomUnits reg denom = None \<Longrightarrow>
   RegisterDenom reg denom unit bDenom bUnit =
     (None, \<lparr>denomUnits = ((denomUnits reg)(denom \<mapsto> unit))(bDenom \<mapsto> bUnit),
              baseDenom = ((baseDenom reg)(denom \<mapsto> bDenom))(bDenom \<mapsto> bDenom)\<rparr>)"
  by (simp add: RegisterDenom_def)

lemma RegisterDenom_cases:
  "snd (RegisterDenom reg denom unit bDenom bUnit) = reg \<or>
   (denomUnits reg denom = None \<and>
    snd (RegisterDenom reg denom unit bDenom bUnit) =
      \<lparr>denomUnits = ((denomUnits reg)(denom \<mapsto> unit))(bDenom \<mapsto> bUnit),
       baseDenom = ((baseDenom reg)(denom \<mapsto> bDenom))(bDenom \<mapsto> bDenom)\<rparr>)"
  by (auto simp: RegisterDenom_def split: option.splits)

lemma linksClosed_RegisterDenom:
  assumes inv: "linksClosed reg"
  shows "linksClosed (snd (RegisterDenom reg denom unit bDenom bUnit))"
proof -
  let ?reg' = "snd (RegisterDenom reg denom unit bDenom bUnit)"
  from RegisterDenom_cases [of reg denom unit bDenom bUnit]
  consider (same) "?reg' = reg"
    | (fresh) "denomUnits reg denom = None"
        "?reg' = \<lparr>denomUnits = ((denomUnits reg)(denom \<mapsto> unit))(bDenom \<mapsto> bUnit),
                 baseDenom = ((baseDenom reg)(denom \<mapsto> bDenom))(bDenom \<mapsto> bDenom)\<rparr>"
    by metis
  then show ?thesis
  proof cases
    case same
    with inv show ?thesis by simp
  next
    case fresh
    from inv have sub: "dom (baseDenom reg) \<subseteq> dom (denomUnits reg)"
      and self: "\<And>d b. baseDenom reg d = Some b \<Longrightarrow> baseDenom reg b = Some b"
      unfolding linksClosed_def by blast+
    from fresh(1) sub have nolink: "baseDenom reg denom = None"
      by (auto simp: dom_def)
    have doms: "dom (baseDenom ?reg') \<subseteq> dom (denomUnits ?reg')"
      using sub by (auto simp: fresh(2))
    have closed: "baseDenom ?reg' b = Some b" if "baseDenom ?reg' d = Some b" for d b
    proof (cases "d = bDenom \<or> d = denom")
      case True
      with that show ?thesis by (auto simp: fresh(2) split: if_splits)
    next
      case False
      with that have old: "baseDenom reg d = Some b" by (simp add: fresh(2))
      then have "baseDenom reg b = Some b" by (rule self)
      with nolink have "b \<noteq> denom" by auto
      with \<open>baseDenom reg b = Some b\<close> show ?thesis by (simp add: fresh(2))
    qed
    from doms closed show ?thesis unfolding linksClosed_def by blast
  qed
qed

lemma linksClosed_registerAll:
  "linksClosed reg \<Longrightarrow> linksClosed (registerAll reg calls)"
proof (induction calls arbitrary: reg)
  case Nil
  then show ?case by simp
next
  case (Cons call calls)
  obtain denom unit bDenom bUnit where call: "call = (denom, unit, bDenom, bUnit)"
    by (cases call) auto
  from Cons.prems have "linksClosed (snd (RegisterDenom reg denom unit bDenom bUnit))"
    by (rule linksClosed_RegisterDenom)
  then show ?case unfolding call by (simp add: Cons.IH)
qed

subsection \<open>Registration and lookup\<close>

text \<open>
  Claim C2, as the code has it. \<^verbatim>\<open>RegisterDenom\<close> checks the grammar of \<open>denom\<close> before
  it looks the name up, so a name that has a multiplier but fails the grammar (a base
  name is never checked, so it can be any string) is refused with \<open>InvalidDenom\<close>, not
  with \<open>AlreadyRegistered\<close>, and \<^verbatim>\<open>GetDenomUnit\<close> reports it absent.
\<close>

theorem RegisterDenom_invalid_name_counterexample:
  "denomUnits (snd (RegisterDenom emptyRegistry ''atom'' (Dec (10 ^ 18)) ''u'' (Dec (10 ^ 12)))) ''u''
     = Some (Dec (10 ^ 12)) \<and>
   fst (RegisterDenom (snd (RegisterDenom emptyRegistry ''atom'' (Dec (10 ^ 18)) ''u'' (Dec (10 ^ 12))))
          ''u'' (Dec 1) ''u'' (Dec 1)) = Some (InvalidDenom ''u'') \<and>
   GetDenomUnit (snd (RegisterDenom emptyRegistry ''atom'' (Dec (10 ^ 18)) ''u'' (Dec (10 ^ 12)))) ''u''
     = (ZeroDec, False)"
  by (simp add: RegisterDenom_def ValidateDenom_atom ValidateDenom_u emptyRegistry_def GetDenomUnit_def)

text \<open>
  Claim C2, amended: whenever \<open>denom\<close> has a multiplier, \<^verbatim>\<open>RegisterDenom\<close> leaves both
  maps as they were; when \<open>denom\<close> is also grammar-valid the error is
  \<open>AlreadyRegistered\<close>, and \<^verbatim>\<open>GetDenomUnit\<close> afterwards still returns the multiplier
  that was recorded.
\<close>

theorem RegisterDenom_registered:
  "denomUnits reg denom = Some u \<Longrightarrow>
   snd (RegisterDenom reg denom unit bDenom bUnit) = reg \<and>
   (ValidateDenom denom = None \<longrightarrow>
      fst (RegisterDenom reg denom unit bDenom bUnit) = Some (AlreadyRegistered denom) \<and>
      GetDenomUnit (snd (RegisterDenom reg denom unit bDenom bUnit)) denom = (u, True))"
  by (simp add: RegisterDenom_def GetDenomUnit_def split: option.splits)

theorem RegisterDenom_registered_witness:
  "denomUnits atomRegistry ''atom'' = Some (Dec (10 ^ 18)) \<and>
   ValidateDenom ''atom'' = None \<and>
   RegisterDenom atomRegistry ''atom'' (Dec 7) ''uatom'' (Dec 9)
     = (Some (AlreadyRegistered ''atom''), atomRegistry) \<and>
   GetDenomUnit (snd (RegisterDenom atomRegistry ''atom'' (Dec 7) ''uatom'' (Dec 9))) ''atom''
     = (Dec (10 ^ 18), True)"
proof -
  have u: "denomUnits atomRegistry ''atom'' = Some (Dec (10 ^ 18))"
    by (simp add: atomRegistry_eq)
  note c = RegisterDenom_registered [OF u, of "Dec 7" "''uatom''" "Dec 9"]
  from c have s: "snd (RegisterDenom atomRegistry ''atom'' (Dec 7) ''uatom'' (Dec 9)) = atomRegistry"
    by simp
  from c ValidateDenom_atom
  have f: "fst (RegisterDenom atomRegistry ''atom'' (Dec 7) ''uatom'' (Dec 9))
             = Some (AlreadyRegistered ''atom'')"
    and g: "GetDenomUnit (snd (RegisterDenom atomRegistry ''atom'' (Dec 7) ''uatom'' (Dec 9))) ''atom''
             = (Dec (10 ^ 18), True)"
    by blast+
  from s f have "RegisterDenom atomRegistry ''atom'' (Dec 7) ''uatom'' (Dec 9)
      = (Some (AlreadyRegistered ''atom''), atomRegistry)"
    by (metis prod.collapse)
  with u g ValidateDenom_atom show ?thesis by simp
qed

text \<open>
  Claim C6, as the code has it. The multiplier of the base name is assigned after that
  of \<open>denom\<close>, so when the two names are the same string the recorded multiplier is
  \<open>bUnit\<close>, not \<open>unit\<close>.
\<close>

theorem RegisterDenom_same_name_counterexample:
  "ValidateDenom ''uatom'' = None \<and>
   denomUnits emptyRegistry ''uatom'' = None \<and>
   fst (RegisterDenom emptyRegistry ''uatom'' (Dec 1) ''uatom'' (Dec 2)) = None \<and>
   denomUnits (snd (RegisterDenom emptyRegistry ''uatom'' (Dec 1) ''uatom'' (Dec 2))) ''uatom''
     = Some (Dec 2) \<and>
   denomUnits (snd (RegisterDenom emptyRegistry ''uatom'' (Dec 1) ''uatom'' (Dec 2))) ''uatom''
     \<noteq> Some (Dec 1)"
  by (simp add: RegisterDenom_def ValidateDenom_uatom emptyRegistry_def)

text \<open>
  Claim C6, amended: for a grammar-valid \<open>denom\<close> without a multiplier, \<^verbatim>\<open>RegisterDenom\<close>
  succeeds; afterwards the base name has the multiplier \<open>bUnit\<close> (whatever it had
  before), \<open>denom\<close> has the multiplier \<open>unit\<close> unless it is the base name itself, both
  names have the base link \<open>bDenom\<close>, and every other entry of both maps is as before.
\<close>

theorem RegisterDenom_entries:
  assumes "ValidateDenom denom = None" and "denomUnits reg denom = None"
  shows "fst (RegisterDenom reg denom unit bDenom bUnit) = None \<and>
         denomUnits (snd (RegisterDenom reg denom unit bDenom bUnit)) bDenom = Some bUnit \<and>
         denomUnits (snd (RegisterDenom reg denom unit bDenom bUnit)) denom
           = Some (if denom = bDenom then bUnit else unit) \<and>
         baseDenom (snd (RegisterDenom reg denom unit bDenom bUnit)) denom = Some bDenom \<and>
         baseDenom (snd (RegisterDenom reg denom unit bDenom bUnit)) bDenom = Some bDenom \<and>
         (\<forall>x. x \<noteq> denom \<and> x \<noteq> bDenom \<longrightarrow>
            denomUnits (snd (RegisterDenom reg denom unit bDenom bUnit)) x = denomUnits reg x \<and>
            baseDenom (snd (RegisterDenom reg denom unit bDenom bUnit)) x = baseDenom reg x)"
  using assms by (simp add: RegisterDenom_def)

theorem RegisterDenom_entries_witness:
  "ValidateDenom ''matom'' = None \<and> denomUnits atomRegistry ''matom'' = None \<and>
   denomUnits atomRegistry ''uatom'' = Some (Dec (10 ^ 12)) \<and>
   fst (RegisterDenom atomRegistry ''matom'' (Dec (10 ^ 15)) ''uatom'' (Dec 5)) = None \<and>
   denomUnits (snd (RegisterDenom atomRegistry ''matom'' (Dec (10 ^ 15)) ''uatom'' (Dec 5))) ''uatom''
     = Some (Dec 5) \<and>
   denomUnits (snd (RegisterDenom atomRegistry ''matom'' (Dec (10 ^ 15)) ''uatom'' (Dec 5))) ''matom''
     = Some (Dec (10 ^ 15)) \<and>
   baseDenom (snd (RegisterDenom atomRegistry ''matom'' (Dec (10 ^ 15)) ''uatom'' (Dec 5))) ''matom''
     = Some ''uatom'' \<and>
   denomUnits (snd (RegisterDenom atomRegistry ''matom'' (Dec (10 ^ 15)) ''uatom'' (Dec 5))) ''atom''
     = Some (Dec (10 ^ 18))"
proof -
  have fresh: "denomUnits atomRegistry ''matom'' = None"
    and old: "denomUnits atomRegistry ''uatom'' = Some (Dec (10 ^ 12))"
      "denomUnits atomRegistry ''atom'' = Some (Dec (10 ^ 18))"
    by (simp_all add: atomRegistry_eq)
  from RegisterDenom_entries [OF ValidateDenom_matom fresh, of "Dec (10 ^ 15)" "''uatom''" "Dec 5"]
    ValidateDenom_matom fresh old
  show ?thesis by simp
qed

text \<open>
  Claim C8, as the code has it. \<^verbatim>\<open>GetBaseDenom\<close> compares \<^verbatim>\<open>baseDenom[denom]\<close> with the
  empty string, which is also what a Go map gives for an absent key. A link whose value
  is the empty string (installed by a registration with the empty base name, for the
  registered name and for the empty string itself) exists and is reported as not
  registered.
\<close>

theorem GetBaseDenom_empty_link_counterexample:
  "baseDenom (snd (RegisterDenom emptyRegistry ''atom'' (Dec (10 ^ 18)) [] (Dec 1))) ''atom'' = Some [] \<and>
   GetBaseDenom (snd (RegisterDenom emptyRegistry ''atom'' (Dec (10 ^ 18)) [] (Dec 1))) ''atom''
     = Error NotRegistered \<and>
   baseDenom (snd (RegisterDenom emptyRegistry ''atom'' (Dec (10 ^ 18)) [] (Dec 1))) [] = Some [] \<and>
   GetBaseDenom (snd (RegisterDenom emptyRegistry ''atom'' (Dec (10 ^ 18)) [] (Dec 1))) []
     = Error NotRegistered"
  by (simp add: RegisterDenom_def ValidateDenom_atom emptyRegistry_def GetBaseDenom_def index_def)

text \<open>
  Claim C8, amended: for every string \<open>denom\<close>, \<^verbatim>\<open>GetBaseDenom\<close> fails with
  \<open>NotRegistered\<close> if and only if \<open>denom\<close> has no base link or its base link is the
  empty string; a base link that is not the empty string is returned.
\<close>

theorem GetBaseDenom_fails_iff:
  "(GetBaseDenom reg denom = Error NotRegistered \<longleftrightarrow>
      baseDenom reg denom = None \<or> baseDenom reg denom = Some []) \<and>
   (\<forall>b. baseDenom reg denom = Some b \<and> b \<noteq> [] \<longrightarrow> GetBaseDenom reg denom = Return b)"
  by (auto simp: GetBaseDenom_def index_def split: option.splits)

theorem GetBaseDenom_fails_iff_witness:
  "baseDenom atomRegistry ''atom'' = Some ''uatom'' \<and>
   GetBaseDenom atomRegistry ''atom'' = Return ''uatom'' \<and>
   baseDenom atomRegistry ''xyz'' = None \<and>
   GetBaseDenom atomRegistry ''xyz'' = Error NotRegistered"
proof -
  have a: "baseDenom atomRegistry ''atom'' = Some ''uatom''"
    and x: "baseDenom atomRegistry ''xyz'' = None"
    by (simp_all add: atomRegistry_eq)
  from GetBaseDenom_fails_iff [of atomRegistry "''atom''"] a
  have "GetBaseDenom atomRegistry ''atom'' = Return ''uatom''" by simp
  moreover from GetBaseDenom_fails_iff [of atomRegistry "''xyz''"] x
  have "GetBaseDenom atomRegistry ''xyz'' = Error NotRegistered" by simp
  ultimately show ?thesis using a x by simp
qed

text \<open>
  Claim C9: from the empty registry, after any list of \<^verbatim>\<open>RegisterDenom\<close> calls, failed
  or not, the base link of a base link exists and is that base link itself.
\<close>

theorem registerAll_links_idempotent: "baseDenom (registerAll emptyRegistry calls) d = Some b \<Longrightarrow>
   baseDenom (registerAll emptyRegistry calls) b = Some b"
proof -
  have "linksClosed emptyRegistry" by (simp add: linksClosed_def emptyRegistry_def)
  then have "linksClosed (registerAll emptyRegistry calls)" by (rule linksClosed_registerAll)
  then show "baseDenom (registerAll emptyRegistry calls) d = Some b \<Longrightarrow>
   baseDenom (registerAll emptyRegistry calls) b = Some b"
    unfolding linksClosed_def by blast
qed

theorem registerAll_links_idempotent_witness:
  "baseDenom (registerAll emptyRegistry [(''atom'', Dec (10 ^ 18), ''uatom'', Dec (10 ^ 12))]) ''atom''
     = Some ''uatom'' \<and>
   baseDenom (registerAll emptyRegistry [(''atom'', Dec (10 ^ 18), ''uatom'', Dec (10 ^ 12))]) ''uatom''
     = Some ''uatom''"
proof -
  have link: "baseDenom (registerAll emptyRegistry
      [(''atom'', Dec (10 ^ 18), ''uatom'', Dec (10 ^ 12))]) ''atom'' = Some ''uatom''"
    by (simp add: RegisterDenom_def ValidateDenom_atom emptyRegistry_def)
  from link registerAll_links_idempotent [OF link] show ?thesis by simp
qed

text \<open>
  Claim C10, as the code has it. The claim's own example is the empty base name: the
  registration succeeds and installs both entries under it, and no lookup observes
  them. \<^verbatim>\<open>GetDenomUnit\<close> checks the grammar before it reads the map, and
  \<^verbatim>\<open>GetBaseDenom\<close> takes the empty link for a missing one, for the empty name and for
  the registered name.
\<close>

theorem RegisterDenom_empty_base_counterexample:
  "ValidateDenom [] \<noteq> None \<and> ValidateDenom ''atom'' = None \<and>
   denomUnits emptyRegistry ''atom'' = None \<and>
   fst (RegisterDenom emptyRegistry ''atom'' (Dec (10 ^ 18)) [] (Dec (10 ^ 12))) = None \<and>
   denomUnits (snd (RegisterDenom emptyRegistry ''atom'' (Dec (10 ^ 18)) [] (Dec (10 ^ 12)))) []
     = Some (Dec (10 ^ 12)) \<and>
   baseDenom (snd (RegisterDenom emptyRegistry ''atom'' (Dec (10 ^ 18)) [] (Dec (10 ^ 12)))) []
     = Some [] \<and>
   GetDenomUnit (snd (RegisterDenom emptyRegistry ''atom'' (Dec (10 ^ 18)) [] (Dec (10 ^ 12)))) []
     = (ZeroDec, False) \<and>
   GetBaseDenom (snd (RegisterDenom emptyRegistry ''atom'' (Dec (10 ^ 18)) [] (Dec (10 ^ 12)))) []
     = Error NotRegistered \<and>
   GetBaseDenom (snd (RegisterDenom emptyRegistry ''atom'' (Dec (10 ^ 18)) [] (Dec (10 ^ 12)))) ''atom''
     = Error NotRegistered"
  by (simp add: RegisterDenom_def ValidateDenom_atom ValidateDenom_empty emptyRegistry_def
      GetDenomUnit_def GetBaseDenom_def index_def)

text \<open>
  Claim C10, amended: \<^verbatim>\<open>RegisterDenom\<close> applies the grammar to \<open>denom\<close> only. For every
  base name that fails the grammar and every grammar-valid \<open>denom\<close> without a
  multiplier, the registration succeeds and installs the multiplier and the self link
  under the base name in the two maps. Of these, \<^verbatim>\<open>GetBaseDenom\<close> observes the link,
  for the base name and for \<open>denom\<close>, when the base name is not the empty string, and
  reports \<open>NotRegistered\<close> for both when it is; \<^verbatim>\<open>GetDenomUnit\<close> never returns the
  multiplier installed under a name that fails the grammar.
\<close>

theorem RegisterDenom_invalid_base:
  assumes "ValidateDenom denom = None" and "denomUnits reg denom = None"
    and "ValidateDenom bDenom \<noteq> None"
  shows "fst (RegisterDenom reg denom unit bDenom bUnit) = None \<and>
         denomUnits (snd (RegisterDenom reg denom unit bDenom bUnit)) bDenom = Some bUnit \<and>
         baseDenom (snd (RegisterDenom reg denom unit bDenom bUnit)) bDenom = Some bDenom \<and>
         GetDenomUnit (snd (RegisterDenom reg denom unit bDenom bUnit)) bDenom = (ZeroDec, False) \<and>
         (bDenom \<noteq> [] \<longrightarrow>
            GetBaseDenom (snd (RegisterDenom reg denom unit bDenom bUnit)) bDenom = Return bDenom \<and>
            GetBaseDenom (snd (RegisterDenom reg denom unit bDenom bUnit)) denom = Return bDenom) \<and>
         (bDenom = [] \<longrightarrow>
            GetBaseDenom (snd (RegisterDenom reg denom unit bDenom bUnit)) bDenom
              = Error NotRegistered \<and>
            GetBaseDenom (snd (RegisterDenom reg denom unit bDenom bUnit)) denom
              = Error NotRegistered)"
proof -
  from assms(1,3) have ne: "denom \<noteq> bDenom" by auto
  from assms(3) obtain err where err: "ValidateDenom bDenom = Some err" by auto
  show ?thesis
    using assms(1,2) ne err
    by (simp add: RegisterDenom_def GetDenomUnit_def GetBaseDenom_def index_def)
qed

theorem RegisterDenom_invalid_base_witness:
  "ValidateDenom ''atom'' = None \<and> denomUnits emptyRegistry ''atom'' = None \<and>
   ValidateDenom ''u'' \<noteq> None \<and>
   fst (RegisterDenom emptyRegistry ''atom'' (Dec (10 ^ 18)) ''u'' (Dec (10 ^ 12))) = None \<and>
   denomUnits (snd (RegisterDenom emptyRegistry ''atom'' (Dec (10 ^ 18)) ''u'' (Dec (10 ^ 12)))) ''u''
     = Some (Dec (10 ^ 12)) \<and>
   baseDenom (snd (RegisterDenom emptyRegistry ''atom'' (Dec (10 ^ 18)) ''u'' (Dec (10 ^ 12)))) ''u''
     = Some ''u'' \<and>
   GetDenomUnit (snd (RegisterDenom emptyRegistry ''atom'' (Dec (10 ^ 18)) ''u'' (Dec (10 ^ 12)))) ''u''
     = (ZeroDec, False) \<and>
   GetBaseDenom (snd (RegisterDenom emptyRegistry ''atom'' (Dec (10 ^ 18)) ''u'' (Dec (10 ^ 12)))) ''u''
     = Return ''u'' \<and>
   GetBaseDenom (snd (RegisterDenom emptyRegistry ''atom'' (Dec (10 ^ 18)) ''u'' (Dec (10 ^ 12)))) ''atom''
     = Return ''u''"
proof -
  have fresh: "denomUnits emptyRegistry ''atom'' = None" by (simp add: emptyRegistry_def)
  have bad: "ValidateDenom ''u'' \<noteq> None" by (simp add: ValidateDenom_u)
  from RegisterDenom_invalid_base [OF ValidateDenom_atom fresh bad, of "Dec (10 ^ 18)" "Dec (10 ^ 12)"]
    ValidateDenom_atom fresh bad
  show ?thesis by simp
qed

subsection \<open>The decimal engine\<close>

lemma truncateTowardZero_bounds:
  "\<bar>of_int (truncateTowardZero x)\<bar> \<le> \<bar>x\<bar>"
  "\<bar>x\<bar> < \<bar>of_int (truncateTowardZero x)\<bar> + 1"
  "0 \<le> x \<Longrightarrow> 0 \<le> truncateTowardZero x"
  "x \<le> 0 \<Longrightarrow> truncateTowardZero x \<le> 0"
proof -
  have pos: "(0::rat) \<le> of_int \<lfloor>x\<rfloor> \<and> of_int \<lfloor>x\<rfloor> \<le> x \<and> x < of_int \<lfloor>x\<rfloor> + 1" if "0 \<le> x"
  proof -
    from that have "0 \<le> \<lfloor>x\<rfloor>" by simp
    then have "(0::rat) \<le> of_int \<lfloor>x\<rfloor>" by simp
    moreover have "of_int \<lfloor>x\<rfloor> \<le> x" by (rule of_int_floor_le)
    moreover have "x < of_int \<lfloor>x\<rfloor> + 1" by (rule floor_correct [THEN conjunct2, simplified])
    ultimately show ?thesis by simp
  qed
  have neg: "of_int \<lceil>x\<rceil> \<le> (0::rat) \<and> x \<le> of_int \<lceil>x\<rceil> \<and> of_int \<lceil>x\<rceil> < x + 1" if "\<not> 0 \<le> x"
  proof -
    from that have "\<lceil>x\<rceil> \<le> 0" by (simp add: ceiling_le_iff)
    then have "of_int \<lceil>x\<rceil> \<le> (0::rat)" by simp
    moreover have "x \<le> of_int \<lceil>x\<rceil>" by (rule le_of_int_ceiling)
    moreover have "of_int \<lceil>x\<rceil> < x + 1"
      using ceiling_correct [of x] by linarith
    ultimately show ?thesis by simp
  qed
  show "\<bar>of_int (truncateTowardZero x)\<bar> \<le> \<bar>x\<bar>"
  proof (cases "0 \<le> x")
    case True
    with pos [OF True] show ?thesis by (simp add: truncateTowardZero_def)
  next
    case False
    with neg [OF False] show ?thesis by (simp add: truncateTowardZero_def)
  qed
  show "\<bar>x\<bar> < \<bar>of_int (truncateTowardZero x)\<bar> + 1"
  proof (cases "0 \<le> x")
    case True
    with pos [OF True] show ?thesis by (simp add: truncateTowardZero_def)
  next
    case False
    with neg [OF False] show ?thesis by (simp add: truncateTowardZero_def)
  qed
  show "0 \<le> x \<Longrightarrow> 0 \<le> truncateTowardZero x"
    by (simp add: truncateTowardZero_def)
  show "x \<le> 0 \<Longrightarrow> truncateTowardZero x \<le> 0"
    by (cases "x = 0") (simp_all add: truncateTowardZero_def ceiling_le_iff)
qed

lemma truncateTowardZero_unique:
  "0 \<le> x \<Longrightarrow> of_int z \<le> x \<Longrightarrow> x < of_int z + 1 \<Longrightarrow> truncateTowardZero x = z"
  unfolding truncateTowardZero_def by (simp add: floor_unique)

lemma truncate_examples:
  "truncateTowardZero (1234567 / 1000000) = 1"
  "truncateTowardZero (5 / 3) = 1"
  "truncateTowardZero (2 / 3) = 0"
  by (rule truncateTowardZero_unique; simp)+


subsection \<open>Conversion between registered denominations\<close>

lemma GetDenomUnit_valid: "GetDenomUnit reg d = (u, True) \<Longrightarrow> ValidateDenom d = None"
  by (auto simp: GetDenomUnit_def split: option.splits)

lemma ConvertCoin_cases:
  assumes "GetDenomUnit reg (Denom coin) = (Dec s, True)"
    and "GetDenomUnit reg denom = (Dec t, True)"
  shows "ConvertCoin reg coin denom =
     (if s = t then Return \<lparr>Denom = denom, Amount = Amount coin\<rparr>
      else if \<not> withinBudget (of_int (Amount coin) * s) \<or> t = 0
              \<or> \<not> withinBudget (of_int (Amount coin) * s / t)
      then Error PrecisionOverflow
      else Return \<lparr>Denom = denom,
             Amount = truncateTowardZero (of_int (Amount coin) * s / t)\<rparr>)"
  using assms GetDenomUnit_valid [OF assms(2)]
  by (simp add: ConvertCoin_def Equal_def NewCoin_def Mul_def Quo_def TruncateInt_def
      NewDecFromInt_def Let_def)


lemma ValidateDenom_Some: "ValidateDenom d = Some e \<Longrightarrow> e = InvalidDenom d"
  by (auto simp: ValidateDenom_def split: if_splits)







lemma andThen_Error:
  "andThen x f = Error e \<longleftrightarrow> x = Error e \<or> (\<exists>v. x = Return v \<and> f v = Error e)"
  by (cases x) simp_all






subsection \<open>Normalisation and parsing always return\<close>
















subsection \<open>The example registries\<close>

lemmas grammar_simps = ValidateDenom_def isLetter_def isDigit_def isDenomChar_def




lemma tripleRegistry_units:
  "GetDenomUnit tripleRegistry ''single'' = (Dec 1, True)"
  "GetDenomUnit tripleRegistry ''triple'' = (Dec 3, True)"
  by (simp_all add: tripleRegistry_def RegisterDenom_def emptyRegistry_def GetDenomUnit_def
      grammar_simps)


subsection \<open>Conversion and normalisation\<close>






text \<open>
  Claim C4: over registered denominations with different multipliers, every coin that
  \<^verbatim>\<open>ConvertCoin\<close> returns carries the exact quotient \<open>amount * s / t\<close> with its
  fractional part discarded toward zero: the amount is the integer of the quotient's sign
  whose magnitude is at most the quotient's and less than one below it. It is never the
  nearest integer above, and never further from zero than the quotient. Within the
  budget, and with a target multiplier that is not zero, a coin is returned. With the
  ratio 1:3, 5 units give 1 and 2 units give 0.
\<close>

theorem ConvertCoin_truncates:
  assumes "GetDenomUnit reg (Denom coin) = (Dec s, True)"
    and "GetDenomUnit reg denom = (Dec t, True)"
    and "s \<noteq> t"
  shows "(\<forall>c. ConvertCoin reg coin denom = Return c \<longrightarrow>
            Denom c = denom \<and>
            \<bar>of_int (Amount c)\<bar> \<le> \<bar>of_int (Amount coin) * s / t\<bar> \<and>
            \<bar>of_int (Amount coin) * s / t\<bar> < \<bar>of_int (Amount c)\<bar> + 1 \<and>
            (0 \<le> of_int (Amount coin) * s / t \<longrightarrow> 0 \<le> Amount c) \<and>
            (of_int (Amount coin) * s / t \<le> 0 \<longrightarrow> Amount c \<le> 0)) \<and>
         (t \<noteq> 0 \<and> withinBudget (of_int (Amount coin) * s) \<and>
          withinBudget (of_int (Amount coin) * s / t) \<longrightarrow>
            (\<exists>c. ConvertCoin reg coin denom = Return c))"
  using assms(3) truncateTowardZero_bounds [of "of_int (Amount coin) * s / t"]
  by (auto simp: ConvertCoin_cases [OF assms(1,2)] split: if_splits)

theorem ConvertCoin_truncates_witness:
  "GetDenomUnit tripleRegistry ''single'' = (Dec 1, True) \<and>
   GetDenomUnit tripleRegistry ''triple'' = (Dec 3, True) \<and>
   ConvertCoin tripleRegistry \<lparr>Denom = ''single'', Amount = 5\<rparr> ''triple''
     = Return \<lparr>Denom = ''triple'', Amount = 1\<rparr> \<and>
   \<bar>rat_of_int 1\<bar> \<le> \<bar>rat_of_int 5 * 1 / 3\<bar> \<and> \<bar>rat_of_int 5 * 1 / 3\<bar> < \<bar>rat_of_int 1\<bar> + 1 \<and>
   (\<exists>c. ConvertCoin tripleRegistry \<lparr>Denom = ''single'', Amount = 2\<rparr> ''triple'' = Return c) \<and>
   ConvertCoin tripleRegistry \<lparr>Denom = ''single'', Amount = 2\<rparr> ''triple''
     = Return \<lparr>Denom = ''triple'', Amount = 0\<rparr>"
proof -
  have five: "ConvertCoin tripleRegistry \<lparr>Denom = ''single'', Amount = 5\<rparr> ''triple''
     = Return \<lparr>Denom = ''triple'', Amount = 1\<rparr>"
    by (simp add: ConvertCoin_cases [where s = 1 and t = 3] tripleRegistry_units
        withinBudget_def maxDecBitLen_def truncate_examples)
  have two: "ConvertCoin tripleRegistry \<lparr>Denom = ''single'', Amount = 2\<rparr> ''triple''
     = Return \<lparr>Denom = ''triple'', Amount = 0\<rparr>"
    by (simp add: ConvertCoin_cases [where s = 1 and t = 3] tripleRegistry_units
        withinBudget_def maxDecBitLen_def truncate_examples)
  note five_thm = ConvertCoin_truncates [of tripleRegistry "\<lparr>Denom = ''single'', Amount = 5\<rparr>" 1 "''triple''" 3]
  note two_thm = ConvertCoin_truncates [of tripleRegistry "\<lparr>Denom = ''single'', Amount = 2\<rparr>" 1 "''triple''" 3]
  from five_thm five
  have "\<bar>rat_of_int 1\<bar> \<le> \<bar>rat_of_int 5 * 1 / 3\<bar> \<and> \<bar>rat_of_int 5 * 1 / 3\<bar> < \<bar>rat_of_int 1\<bar> + 1"
    by (simp add: tripleRegistry_units)
  moreover from two_thm
  have "\<exists>c. ConvertCoin tripleRegistry \<lparr>Denom = ''single'', Amount = 2\<rparr> ''triple'' = Return c"
    by (simp add: tripleRegistry_units withinBudget_def maxDecBitLen_def)
  ultimately show ?thesis using five two by (simp add: tripleRegistry_units)
qed




subsection \<open>Parsing a list of coins\<close>

























end
